theory Spec2Isabelle
  imports Complex_Main
begin

section \<open>Trade-off simulation for three context-loading approaches\<close>

text \<open>
  This theory embeds the cost and accuracy model of
  \<^verbatim>\<open>be/chat_tools_speakeasy/simulation.py\<close>.

  Conventions of the embedding:
  \<^item> The source functions take a numpy array of tool counts and act on it element by
    element. Each function is modelled on one element (an \<open>int\<close>); the runners map it
    over the list of tool counts.
  \<^item> A tool count is an element of an int64 array (what \<^verbatim>\<open>np.array\<close> and \<^verbatim>\<open>np.arange\<close>
    make of Python integers). It is an \<open>int\<close> here, and every integer operation the source
    performs on the array (\<^verbatim>\<open>num_tools * TOKENS_PER_TOOL_SCHEMA\<close>, the sum with the base
    prompt, \<^verbatim>\<open>num_tools - TOOL_COUNT_ACCURACY_THRESHOLD\<close>) wraps around as int64 does, through
    \<open>int64_wrap\<close>. A cycle count is a Python integer, an \<open>int\<close>.
  \<^item> Integer module constants are \<open>int\<close>, float constants and all finite float results
    are \<open>real\<close>: the arithmetic is the exact one, rounding is not modelled. The quotients
    of the crossover computation, where numpy divides by zero without raising, are
    \<open>npfloat\<close> values: a real, an infinity or not-a-number.
  \<^item> An optional argument (\<^verbatim>\<open>cycles: int = None\<close>, \<^verbatim>\<open>tool_counts = None\<close>) is an
    \<open>option\<close>.
  \<^item> Plotting and printing are left out; only the computed values are modelled.
\<close>

subsection \<open>Model parameters\<close>

definition BASE_SYSTEM_PROMPT_TOKENS :: int where "BASE_SYSTEM_PROMPT_TOKENS = 500"
definition TOKENS_PER_TOOL_SCHEMA :: int where "TOKENS_PER_TOOL_SCHEMA = 100"
definition TOKENS_PER_ENTITY :: int where "TOKENS_PER_ENTITY = 72"
definition ENTITIES_PER_TYPE :: int where "ENTITIES_PER_TYPE = 100"
definition NUM_ENTITY_TYPES :: int where "NUM_ENTITY_TYPES = 5"

definition DYNAMIC_META_TOOLS_TOKENS :: int where "DYNAMIC_META_TOOLS_TOKENS = 150"
definition DYNAMIC_DISCOVERY_OVERHEAD :: int where "DYNAMIC_DISCOVERY_OVERHEAD = 75"
definition DYNAMIC_SCHEMAS_LOADED :: real where "DYNAMIC_SCHEMAS_LOADED = 2.5"

definition LLM_BASE_LATENCY :: int where "LLM_BASE_LATENCY = 800"
definition LLM_LATENCY_PER_1K_TOKENS :: int where "LLM_LATENCY_PER_1K_TOKENS = 50"
definition TOOL_CALL_LATENCY :: int where "TOOL_CALL_LATENCY = 200"

subsection \<open>Accuracy model parameters\<close>

definition CONTEXT_SIZE_ACCURACY_THRESHOLD :: int where "CONTEXT_SIZE_ACCURACY_THRESHOLD = 20000"
definition CONTEXT_SIZE_ACCURACY_DECAY :: real where "CONTEXT_SIZE_ACCURACY_DECAY = 0.00002"
definition MAX_CONTEXT_ACCURACY_LOSS :: real where "MAX_CONTEXT_ACCURACY_LOSS = 0.15"

definition TOOL_COUNT_ACCURACY_THRESHOLD :: int where "TOOL_COUNT_ACCURACY_THRESHOLD = 15"
definition TOOL_COUNT_ACCURACY_DECAY :: real where "TOOL_COUNT_ACCURACY_DECAY = 0.003"
definition MAX_TOOL_ACCURACY_LOSS :: real where "MAX_TOOL_ACCURACY_LOSS = 0.20"

definition DISCOVERY_FAILURE_BASE_RATE :: real where "DISCOVERY_FAILURE_BASE_RATE = 0.02"
definition DISCOVERY_CYCLE_ERROR_RATE :: real where "DISCOVERY_CYCLE_ERROR_RATE = 0.015"
definition DYNAMIC_CYCLES_MIN :: int where "DYNAMIC_CYCLES_MIN = 2"
definition DYNAMIC_CYCLES_AVG :: int where "DYNAMIC_CYCLES_AVG = 3"
definition DYNAMIC_CYCLES_MAX :: int where "DYNAMIC_CYCLES_MAX = 6"

subsection \<open>Token and latency models\<close>

text \<open>\<^verbatim>\<open>np.full_like(num_tools, BASE_SYSTEM_PROMPT_TOKENS + entity_tokens, dtype=float)\<close>:
  every element of the result is the same float, whatever the element of \<open>num_tools\<close>.\<close>

definition full_context_tokens :: "int \<Rightarrow> real" where
  "full_context_tokens num_tools =
     (let entity_tokens = ENTITIES_PER_TYPE * NUM_ENTITY_TYPES * TOKENS_PER_ENTITY
      in real_of_int (BASE_SYSTEM_PROMPT_TOKENS + entity_tokens))"

definition full_context_latency :: "int \<Rightarrow> real" where
  "full_context_latency num_tools =
     (let tokens = full_context_tokens num_tools
      in real_of_int LLM_BASE_LATENCY
           + (tokens / 1000) * real_of_int LLM_LATENCY_PER_1K_TOKENS)"

text \<open>The value an int64 operation leaves when its exact result is \<open>x\<close>: the
  representative of \<open>x\<close> modulo \<open>2 ^ 64\<close> between \<open>- 2 ^ 63\<close> and \<open>2 ^ 63 - 1\<close>. numpy
  wraps silently on arrays.\<close>

definition int64_wrap :: "int \<Rightarrow> int" where
  "int64_wrap x = (x + 2 ^ 63) mod 2 ^ 64 - 2 ^ 63"

text \<open>\<^verbatim>\<open>num_tools * TOKENS_PER_TOOL_SCHEMA\<close> and \<^verbatim>\<open>BASE_SYSTEM_PROMPT_TOKENS + schema_tokens\<close> are
  int64 operations; adding the float \<^verbatim>\<open>data_tokens\<close> then gives a float.\<close>

definition static_tools_tokens :: "int \<Rightarrow> real" where
  "static_tools_tokens num_tools =
     (let schema_tokens = int64_wrap (num_tools * TOKENS_PER_TOOL_SCHEMA);
          data_tokens = real_of_int (10 * NUM_ENTITY_TYPES * TOKENS_PER_ENTITY) * 0.5
      in real_of_int (int64_wrap (BASE_SYSTEM_PROMPT_TOKENS + schema_tokens)) + data_tokens)"

definition static_tools_latency :: "int \<Rightarrow> real" where
  "static_tools_latency num_tools =
     (let tokens = static_tools_tokens num_tools;
          llm_latency = real_of_int LLM_BASE_LATENCY
                          + (tokens / 1000) * real_of_int LLM_LATENCY_PER_1K_TOKENS;
          tool_latency = 3 * TOOL_CALL_LATENCY
      in llm_latency + real_of_int tool_latency)"

definition dynamic_toolset_tokens :: "int \<Rightarrow> real" where
  "dynamic_toolset_tokens num_tools =
     (let meta_tokens = DYNAMIC_META_TOOLS_TOKENS;
          discovery_tokens = DYNAMIC_DISCOVERY_OVERHEAD;
          loaded_schema_tokens = DYNAMIC_SCHEMAS_LOADED * real_of_int TOKENS_PER_TOOL_SCHEMA;
          data_tokens = real_of_int (10 * NUM_ENTITY_TYPES * TOKENS_PER_ENTITY) * 0.3
      in real_of_int (BASE_SYSTEM_PROMPT_TOKENS + meta_tokens + discovery_tokens)
           + loaded_schema_tokens + data_tokens)"

text \<open>The module defines \<^verbatim>\<open>dynamic_toolset_latency\<close> twice; the second definition (with the
  \<^verbatim>\<open>cycles\<close> argument) replaces the first at import time and is the one every caller
  reaches. It is the one modelled.\<close>

definition dynamic_toolset_latency :: "int \<Rightarrow> int option \<Rightarrow> real" where
  "dynamic_toolset_latency num_tools cycles_arg =
     (let cycles = (case cycles_arg of None \<Rightarrow> DYNAMIC_CYCLES_AVG | Some c \<Rightarrow> c);
          tokens = dynamic_toolset_tokens num_tools;
          llm_latency = real_of_int cycles
                          * (real_of_int LLM_BASE_LATENCY
                               + (tokens / 1000) * real_of_int LLM_LATENCY_PER_1K_TOKENS);
          tool_latency = (cycles + 1) * TOOL_CALL_LATENCY
      in llm_latency + real_of_int tool_latency)"

definition dynamic_toolset_latency_range :: "int \<Rightarrow> real \<times> real \<times> real" where
  "dynamic_toolset_latency_range num_tools =
     (let best = dynamic_toolset_latency num_tools (Some DYNAMIC_CYCLES_MIN);
          avg = dynamic_toolset_latency num_tools (Some DYNAMIC_CYCLES_AVG);
          worst = dynamic_toolset_latency num_tools (Some DYNAMIC_CYCLES_MAX)
      in (best, avg, worst))"

subsection \<open>Accuracy models\<close>

definition full_context_accuracy :: "int \<Rightarrow> real" where
  "full_context_accuracy num_tools =
     (let tokens = full_context_tokens num_tools;
          excess_tokens = max 0 (tokens - real_of_int CONTEXT_SIZE_ACCURACY_THRESHOLD);
          context_loss = min (excess_tokens * CONTEXT_SIZE_ACCURACY_DECAY)
                             MAX_CONTEXT_ACCURACY_LOSS;
          data_noise_loss = 0.02
      in 1.0 - context_loss - data_noise_loss)"

definition static_tools_accuracy :: "int \<Rightarrow> real" where
  "static_tools_accuracy num_tools =
     (let excess_tools = max 0 (int64_wrap (num_tools - TOOL_COUNT_ACCURACY_THRESHOLD));
          tool_loss = min (real_of_int excess_tools * TOOL_COUNT_ACCURACY_DECAY)
                          MAX_TOOL_ACCURACY_LOSS;
          base_accuracy = 0.98
      in base_accuracy - tool_loss)"

text \<open>The local \<^verbatim>\<open>tool_scaling\<close> of \<^verbatim>\<open>dynamic_toolset_accuracy\<close>, as a function of the tool
  count: \<^verbatim>\<open>1 - 0.01 * np.log10(np.maximum(num_tools, 1))\<close>.\<close>

definition tool_scaling :: "int \<Rightarrow> real" where
  "tool_scaling num_tools = 1 - 0.01 * log 10 (real_of_int (max num_tools 1))"

text \<open>\<^verbatim>\<open>(1 - DISCOVERY_CYCLE_ERROR_RATE) ** cycles\<close> with an integer \<^verbatim>\<open>cycles\<close> is the integer
  power \<open>powi\<close>, the reciprocal of the power for a negative exponent.\<close>

definition dynamic_toolset_accuracy :: "int \<Rightarrow> int option \<Rightarrow> real" where
  "dynamic_toolset_accuracy num_tools cycles_arg =
     (let cycles = (case cycles_arg of None \<Rightarrow> DYNAMIC_CYCLES_AVG | Some c \<Rightarrow> c);
          discovery_loss = DISCOVERY_FAILURE_BASE_RATE;
          cycle_success = (1 - DISCOVERY_CYCLE_ERROR_RATE) powi cycles;
          base_accuracy = 0.97
      in base_accuracy * cycle_success * tool_scaling num_tools - discovery_loss)"

definition dynamic_toolset_accuracy_range :: "int \<Rightarrow> real \<times> real \<times> real" where
  "dynamic_toolset_accuracy_range num_tools =
     (let best = dynamic_toolset_accuracy num_tools (Some DYNAMIC_CYCLES_MIN);
          avg = dynamic_toolset_accuracy num_tools (Some DYNAMIC_CYCLES_AVG);
          worst = dynamic_toolset_accuracy num_tools (Some DYNAMIC_CYCLES_MAX)
      in (best, avg, worst))"

subsection \<open>Monthly cost\<close>

record cost_result =
  cost_tool_counts :: "int list"
  full_context_cost :: "real list"
  static_cost :: "real list"
  dynamic_cost :: "real list"

definition run_cost_simulation :: "int list option \<Rightarrow> int \<Rightarrow> real \<Rightarrow> cost_result" where
  "run_cost_simulation tool_counts_arg queries_per_month cost_per_million_tokens =
     (let tool_counts = (case tool_counts_arg of
                            None \<Rightarrow> [10, 20, 30, 40, 50, 75, 100, 150, 200]
                          | Some tcs \<Rightarrow> tcs);
          full_context = map full_context_tokens tool_counts;
          static = map static_tools_tokens tool_counts;
          dynamic = map dynamic_toolset_tokens tool_counts;
          cost_multiplier = real_of_int queries_per_month * cost_per_million_tokens / 1000000
      in \<lparr> cost_tool_counts = tool_counts,
           full_context_cost = map (\<lambda>t. t * cost_multiplier) full_context,
           static_cost = map (\<lambda>t. t * cost_multiplier) static,
           dynamic_cost = map (\<lambda>t. t * cost_multiplier) dynamic \<rparr>)"

subsection \<open>The sweep entry point\<close>

text \<open>\<^verbatim>\<open>run_simulation\<close> returns a dictionary of series, one entry per tool count; the
  nested dictionary is flattened into one record whose field names follow the keys. The
  function has no \<^verbatim>\<open>raise\<close> and no check of its argument; the result type still has
  an error side so that rejecting an input can be expressed.\<close>

datatype sim_error = ValidationError

record simulation_result =
  res_tool_counts :: "int list"
  res_full_context_tokens :: "real list"
  res_full_context_latency :: "real list"
  res_static_tools_tokens :: "real list"
  res_static_tools_latency :: "real list"
  res_dynamic_toolset_tokens :: "real list"
  res_dynamic_toolset_latency_best :: "real list"
  res_dynamic_toolset_latency_avg :: "real list"
  res_dynamic_toolset_latency_worst :: "real list"

definition run_simulation :: "int list option \<Rightarrow> sim_error + simulation_result" where
  "run_simulation tool_counts_arg =
     (let tool_counts = (case tool_counts_arg of
                            None \<Rightarrow> [5, 10, 20, 30, 40, 50, 75, 100, 150, 200]
                          | Some tcs \<Rightarrow> tcs);
          fc_tokens = map full_context_tokens tool_counts;
          fc_latency = map full_context_latency tool_counts;
          st_tokens = map static_tools_tokens tool_counts;
          st_latency = map static_tools_latency tool_counts;
          dy_tokens = map dynamic_toolset_tokens tool_counts;
          dy_lat = map dynamic_toolset_latency_range tool_counts
      in Inr \<lparr> res_tool_counts = tool_counts,
               res_full_context_tokens = fc_tokens,
               res_full_context_latency = fc_latency,
               res_static_tools_tokens = st_tokens,
               res_static_tools_latency = st_latency,
               res_dynamic_toolset_tokens = dy_tokens,
               res_dynamic_toolset_latency_best = map (\<lambda>(best, avg, worst). best) dy_lat,
               res_dynamic_toolset_latency_avg = map (\<lambda>(best, avg, worst). avg) dy_lat,
               res_dynamic_toolset_latency_worst = map (\<lambda>(best, avg, worst). worst) dy_lat \<rparr>)"

subsection \<open>Crossover\<close>

text \<open>The module has no crossover function of its own: \<^verbatim>\<open>run_crossover_analysis\<close>
  (as \<^verbatim>\<open>crossover_start\<close>) and \<^verbatim>\<open>print_summary_table\<close> (as \<^verbatim>\<open>crossover\<close>) each hold
  the same lines: the two percentages, \<^verbatim>\<open>np.where(token_savings > latency_overhead)[0]\<close>,
  and the tool count at the first index found, used only when an index was found. The
  percentages are modelled for one tool count; \<open>crossover\<close> is the computation on a range
  of tool counts, \<open>None\<close> when no index is found (the source then prints and draws
  nothing).

  \<^verbatim>\<open>dynamic_toolset_latency(tool_counts)\<close> is called without \<^verbatim>\<open>cycles\<close>.\<close>

text \<open>A numpy float division by zero does not raise: it gives an infinity, or
  not-a-number for \<^verbatim>\<open>0 / 0\<close>, and the arithmetic and the comparisons go on with these
  values (a comparison with not-a-number is false). The static token count is 0 at the
  tool count -23 and the static latency at -303, and through the int64 wrap-around also
  at tool counts near \<open>4.6 * 10 ^ 18\<close>.\<close>

datatype npfloat = Fin real | PInf | NInf | NaN

definition np_divide :: "real \<Rightarrow> real \<Rightarrow> npfloat" where
  "np_divide x y =
     (if y \<noteq> 0 then Fin (x / y)
      else if 0 < x then PInf else if x < 0 then NInf else NaN)"

fun np_times :: "npfloat \<Rightarrow> npfloat \<Rightarrow> npfloat" where
  "np_times (Fin x) (Fin y) = Fin (x * y)"
| "np_times NaN b = NaN"
| "np_times a NaN = NaN"
| "np_times (Fin x) PInf = (if 0 < x then PInf else if x < 0 then NInf else NaN)"
| "np_times (Fin x) NInf = (if 0 < x then NInf else if x < 0 then PInf else NaN)"
| "np_times PInf (Fin y) = (if 0 < y then PInf else if y < 0 then NInf else NaN)"
| "np_times NInf (Fin y) = (if 0 < y then NInf else if y < 0 then PInf else NaN)"
| "np_times PInf PInf = PInf"
| "np_times NInf NInf = PInf"
| "np_times PInf NInf = NInf"
| "np_times NInf PInf = NInf"

fun np_minus :: "npfloat \<Rightarrow> npfloat \<Rightarrow> npfloat" where
  "np_minus (Fin x) (Fin y) = Fin (x - y)"
| "np_minus NaN b = NaN"
| "np_minus a NaN = NaN"
| "np_minus PInf PInf = NaN"
| "np_minus NInf NInf = NaN"
| "np_minus PInf b = PInf"
| "np_minus NInf b = NInf"
| "np_minus (Fin x) PInf = NInf"
| "np_minus (Fin x) NInf = PInf"

fun np_less :: "npfloat \<Rightarrow> npfloat \<Rightarrow> bool" where
  "np_less (Fin x) (Fin y) = (x < y)"
| "np_less NaN b = False"
| "np_less a NaN = False"
| "np_less PInf b = False"
| "np_less a NInf = False"
| "np_less a PInf = True"
| "np_less NInf b = True"

fun np_less_eq :: "npfloat \<Rightarrow> npfloat \<Rightarrow> bool" where
  "np_less_eq (Fin x) (Fin y) = (x \<le> y)"
| "np_less_eq NaN b = False"
| "np_less_eq a NaN = False"
| "np_less_eq a PInf = True"
| "np_less_eq NInf b = True"
| "np_less_eq PInf b = False"
| "np_less_eq a NInf = False"

text \<open>The operators \<open>*\<close>, \<open>-\<close>, \<open><\<close>, \<open>\<le>\<close> and \<open>0\<close> on \<open>npfloat\<close> are these functions, so that
  the lines of the source read as they are written.\<close>

instantiation npfloat :: "{zero, times, minus, ord}"
begin

definition zero_npfloat :: npfloat where "zero_npfloat = Fin 0"

definition times_npfloat :: "npfloat \<Rightarrow> npfloat \<Rightarrow> npfloat" where "times_npfloat = np_times"

definition minus_npfloat :: "npfloat \<Rightarrow> npfloat \<Rightarrow> npfloat" where "minus_npfloat = np_minus"

definition less_npfloat :: "npfloat \<Rightarrow> npfloat \<Rightarrow> bool" where "less_npfloat = np_less"

definition less_eq_npfloat :: "npfloat \<Rightarrow> npfloat \<Rightarrow> bool" where "less_eq_npfloat = np_less_eq"

instance ..

end

definition token_savings_pct :: "int \<Rightarrow> npfloat" where
  "token_savings_pct n =
     np_divide (static_tools_tokens n - dynamic_toolset_tokens n) (static_tools_tokens n)
       * Fin 100"

definition latency_overhead_pct :: "int \<Rightarrow> npfloat" where
  "latency_overhead_pct n =
     np_divide (dynamic_toolset_latency n None - static_tools_latency n) (static_tools_latency n)
       * Fin 100"

definition net_benefit :: "int \<Rightarrow> npfloat" where
  "net_benefit n = token_savings_pct n - latency_overhead_pct n"

definition crossover :: "int list \<Rightarrow> int option" where
  "crossover test_range =
     (let favorable_idx =
            filter (\<lambda>i. token_savings_pct (test_range ! i) > latency_overhead_pct (test_range ! i))
                   [0..<length test_range]
      in if length favorable_idx > 0 then Some (test_range ! (favorable_idx ! 0)) else None)"

text \<open>\<^verbatim>\<open>run_crossover_analysis\<close> sweeps its argument, by default \<^verbatim>\<open>np.arange(5, 205, 5)\<close>;
  \<^verbatim>\<open>print_summary_table\<close> sweeps \<^verbatim>\<open>np.arange(5, 300, 1)\<close>.\<close>

definition crossover_start :: "int list option \<Rightarrow> int option" where
  "crossover_start tool_counts_arg =
     (let tool_counts = (case tool_counts_arg of
                            None \<Rightarrow> map (\<lambda>k. 5 + 5 * int k) [0..<40]
                          | Some tcs \<Rightarrow> tcs)
      in crossover tool_counts)"

definition summary_crossover :: "int option" where
  "summary_crossover = crossover [5..299]"

subsection \<open>The cycle sweep of the cycle-impact run\<close>

text \<open>\<^verbatim>\<open>run_cycle_impact_simulation\<close> evaluates the dynamic toolset at 50 tools for
  \<^verbatim>\<open>cycles = np.arange(1, 10)\<close>; the accuracies are scaled to percent.\<close>

record cycle_impact_result =
  cycles_out :: "int list"
  accuracies :: "real list"
  latencies :: "real list"

definition run_cycle_impact_simulation :: cycle_impact_result where
  "run_cycle_impact_simulation =
     (let cycles = [1..9];
          tool_counts_example = 50
      in \<lparr> cycles_out = cycles,
           accuracies = map (\<lambda>c. dynamic_toolset_accuracy tool_counts_example (Some c) * 100) cycles,
           latencies = map (\<lambda>c. dynamic_toolset_latency tool_counts_example (Some c)) cycles \<rparr>)"

section \<open>Basic values of the model\<close>

lemmas token_params =
  BASE_SYSTEM_PROMPT_TOKENS_def TOKENS_PER_TOOL_SCHEMA_def TOKENS_PER_ENTITY_def
  ENTITIES_PER_TYPE_def NUM_ENTITY_TYPES_def DYNAMIC_META_TOOLS_TOKENS_def
  DYNAMIC_DISCOVERY_OVERHEAD_def DYNAMIC_SCHEMAS_LOADED_def

lemmas latency_params =
  LLM_BASE_LATENCY_def LLM_LATENCY_PER_1K_TOKENS_def TOOL_CALL_LATENCY_def

lemmas accuracy_params =
  CONTEXT_SIZE_ACCURACY_THRESHOLD_def CONTEXT_SIZE_ACCURACY_DECAY_def
  MAX_CONTEXT_ACCURACY_LOSS_def TOOL_COUNT_ACCURACY_THRESHOLD_def
  TOOL_COUNT_ACCURACY_DECAY_def MAX_TOOL_ACCURACY_LOSS_def
  DISCOVERY_FAILURE_BASE_RATE_def DISCOVERY_CYCLE_ERROR_RATE_def

lemmas cycle_params =
  DYNAMIC_CYCLES_MIN_def DYNAMIC_CYCLES_AVG_def DYNAMIC_CYCLES_MAX_def

lemma full_context_tokens_value: "full_context_tokens n = 36500"
  by (simp add: full_context_tokens_def token_params)

lemma int64_wrap_id:
  assumes "- (2 ^ 63) \<le> x" "x < 2 ^ 63"
  shows "int64_wrap x = x"
proof -
  have "(x + 2 ^ 63) mod 2 ^ 64 = x + 2 ^ 63"
    using assms by (intro mod_pos_pos_trivial) simp_all
  then show ?thesis by (simp add: int64_wrap_def)
qed

lemma static_tools_tokens_value:
  assumes "- (2 ^ 63) \<le> 100 * n" "100 * n + 500 < 2 ^ 63"
  shows "static_tools_tokens n = 2300 + 100 * real_of_int n"
proof -
  have a: "int64_wrap (n * 100) = n * 100"
    using assms by (intro int64_wrap_id) simp_all
  have b: "int64_wrap (500 + n * 100) = 500 + n * 100"
    using assms by (intro int64_wrap_id) simp_all
  show ?thesis by (simp add: static_tools_tokens_def token_params a b)
qed

lemma static_tools_tokens_small:
  assumes "- (10 ^ 16) \<le> n" "n \<le> 10 ^ 16"
  shows "static_tools_tokens n = 2300 + 100 * real_of_int n"
  using assms by (intro static_tools_tokens_value) simp_all

lemma dynamic_toolset_tokens_value: "dynamic_toolset_tokens n = 2055"
  by (simp add: dynamic_toolset_tokens_def token_params)

lemma static_tools_latency_small:
  assumes "- (10 ^ 16) \<le> n" "n \<le> 10 ^ 16"
  shows "static_tools_latency n = 1515 + 5 * real_of_int n"
  by (simp add: static_tools_latency_def static_tools_tokens_small [OF assms] latency_params)

lemma dynamic_toolset_latency_value:
  "dynamic_toolset_latency n (Some c) = 902.75 * real_of_int c + 200 * (real_of_int c + 1)"
  by (simp add: dynamic_toolset_latency_def dynamic_toolset_tokens_value latency_params
      algebra_simps)

section \<open>Token counts\<close>

text \<open>
  C4. The full-context token count does not depend on the tool count: for every tool
  count it is the base system-prompt tokens plus entities-per-type times the number of
  entity types times tokens-per-entity, which is 500 + 100 * 5 * 72 = 36500 with the
  module's constants.
\<close>

theorem full_context_tokens_constant:
  "full_context_tokens n =
     real_of_int (BASE_SYSTEM_PROMPT_TOKENS
                    + ENTITIES_PER_TYPE * NUM_ENTITY_TYPES * TOKENS_PER_ENTITY)
   \<and> full_context_tokens n = 500 + 100 * 5 * 72
   \<and> full_context_tokens n = 36500
   \<and> full_context_tokens n = full_context_tokens m"
  by (simp add: full_context_tokens_def token_params)

text \<open>
  C7, as stated: the static-tools token count is monotone for all non-negative tool
  counts. It fails: the int64 product \<^verbatim>\<open>num_tools * TOKENS_PER_TOOL_SCHEMA\<close> wraps around, so
  that \<open>10 ^ 17\<close> tools get fewer tokens (a negative count) than 50 tools.
\<close>

theorem static_tools_tokens_not_monotone:
  "(50::int) \<le> 10 ^ 17
   \<and> static_tools_tokens 50 = 7300
   \<and> static_tools_tokens (10 ^ 17) = - 8446744073709549316
   \<and> \<not> static_tools_tokens 50 \<le> static_tools_tokens (10 ^ 17)"
  by (simp add: static_tools_tokens_def token_params int64_wrap_def)

text \<open>
  C7, amended. For non-negative tool counts \<open>a \<le> b\<close> with \<open>100 * b + 500 < 2 ^ 63\<close> (that is,
  \<open>b\<close> at most 92233720368547753, where neither the int64 schema term nor its sum with the
  base prompt wraps around) the static-tools token count at \<open>a\<close> is at most the count at
  \<open>b\<close>; and at tool count 0 it is the base prompt tokens plus the partial-data overhead
  (\<^verbatim>\<open>10 * NUM_ENTITY_TYPES * TOKENS_PER_ENTITY * 0.5\<close>), the schema term being 0.
\<close>

theorem static_tools_tokens_mono:
  "(0 \<le> a \<and> a \<le> b \<and> 100 * b + 500 < 2 ^ 63 \<longrightarrow>
      static_tools_tokens a \<le> static_tools_tokens b)
   \<and> (100 * b + 500 < 2 ^ 63 \<longleftrightarrow> b \<le> 92233720368547753)
   \<and> static_tools_tokens 0 =
       real_of_int BASE_SYSTEM_PROMPT_TOKENS
         + real_of_int (10 * NUM_ENTITY_TYPES * TOKENS_PER_ENTITY) * 0.5
   \<and> static_tools_tokens 0 = 2300"
proof -
  have mono: "static_tools_tokens a \<le> static_tools_tokens b"
    if h: "0 \<le> a" "a \<le> b" "100 * b + 500 < 2 ^ 63"
  proof -
    have "static_tools_tokens a = 2300 + 100 * real_of_int a"
      using h by (intro static_tools_tokens_value) simp_all
    moreover have "static_tools_tokens b = 2300 + 100 * real_of_int b"
      using h by (intro static_tools_tokens_value) simp_all
    ultimately show ?thesis using h(2) by simp
  qed
  have bound: "100 * b + 500 < 2 ^ 63 \<longleftrightarrow> b \<le> 92233720368547753"
    by simp presburger
  have zero: "static_tools_tokens 0 = 2300"
    using static_tools_tokens_value [of 0] by simp
  then have base: "static_tools_tokens 0 =
       real_of_int BASE_SYSTEM_PROMPT_TOKENS
         + real_of_int (10 * NUM_ENTITY_TYPES * TOKENS_PER_ENTITY) * 0.5"
    by (simp add: token_params)
  from mono bound zero base show ?thesis by blast
qed

theorem static_tools_tokens_mono_witness:
  "(0::int) \<le> 5 \<and> (5::int) \<le> 50 \<and> (100::int) * 50 + 500 < 2 ^ 63
   \<and> static_tools_tokens 5 \<le> static_tools_tokens 50
   \<and> static_tools_tokens 5 = 2800 \<and> static_tools_tokens 50 = 7300"
proof -
  have h: "(0::int) \<le> 5" "(5::int) \<le> 50" "(100::int) * 50 + 500 < 2 ^ 63" by simp_all
  from static_tools_tokens_mono [of 5 50] h
  have "static_tools_tokens 5 \<le> static_tools_tokens 50" by blast
  then show ?thesis
    using h static_tools_tokens_small [of 5] static_tools_tokens_small [of 50] by simp
qed

text \<open>The bound is sharp: one tool more and the sum with the base prompt wraps around.\<close>

lemma static_tools_tokens_wraps_beyond:
  "static_tools_tokens 92233720368547754 < static_tools_tokens 0"
  by (simp add: static_tools_tokens_def token_params int64_wrap_def)

section \<open>Latency\<close>

text \<open>
  C5. For every tool count, the dynamic-toolset latency at the maximum cycle count
  (\<open>DYNAMIC_CYCLES_MAX\<close>) is strictly greater than at the minimum cycle count
  (\<open>DYNAMIC_CYCLES_MIN\<close>); these are the worst and best components of
  \<open>dynamic_toolset_latency_range\<close>.
\<close>

theorem dynamic_latency_max_gt_min:
  "dynamic_toolset_latency n (Some DYNAMIC_CYCLES_MIN)
     < dynamic_toolset_latency n (Some DYNAMIC_CYCLES_MAX)
   \<and> (case dynamic_toolset_latency_range n of (best, avg, worst) \<Rightarrow> best < worst)"
  by (simp add: dynamic_toolset_latency_range_def dynamic_toolset_latency_value cycle_params)

text \<open>
  C6. With the module's constants, at 50 tools and 3 cycles the dynamic toolset is slower
  than the static tools (3508.25 ms against 1765 ms) and uses fewer tokens (2055 against
  7300).
\<close>

theorem dynamic_vs_static_at_50:
  "dynamic_toolset_latency 50 (Some 3) > static_tools_latency 50
   \<and> dynamic_toolset_tokens 50 < static_tools_tokens 50
   \<and> dynamic_toolset_latency 50 (Some 3) = 3508.25
   \<and> static_tools_latency 50 = 1765
   \<and> dynamic_toolset_tokens 50 = 2055
   \<and> static_tools_tokens 50 = 7300"
  using static_tools_tokens_small [of 50] static_tools_latency_small [of 50]
  by (simp add: dynamic_toolset_latency_value dynamic_toolset_tokens_value)

section \<open>Monthly cost\<close>

text \<open>
  C9. With one million queries per month and 3.0 per million tokens, the monthly cost of
  each approach at each swept tool count is that approach's tokens per query times 3.
\<close>

theorem monthly_cost_default_rate:
  "(let r = run_cost_simulation arg 1000000 3 in
      full_context_cost r = map (\<lambda>n. full_context_tokens n * 3) (cost_tool_counts r)
      \<and> static_cost r = map (\<lambda>n. static_tools_tokens n * 3) (cost_tool_counts r)
      \<and> dynamic_cost r = map (\<lambda>n. dynamic_toolset_tokens n * 3) (cost_tool_counts r))
   \<and> cost_tool_counts (run_cost_simulation (Some tcs) 1000000 3) = tcs
   \<and> length (full_context_cost (run_cost_simulation (Some tcs) 1000000 3)) = length tcs
   \<and> length (static_cost (run_cost_simulation (Some tcs) 1000000 3)) = length tcs
   \<and> length (dynamic_cost (run_cost_simulation (Some tcs) 1000000 3)) = length tcs"
  by (simp add: run_cost_simulation_def Let_def o_def)

section \<open>Dynamic-toolset accuracy at small tool counts\<close>



section \<open>Accuracy stays a probability\<close>

lemma tool_scaling_le_one: "tool_scaling n \<le> 1"
proof -
  have "1 \<le> real_of_int (max n 1)" by simp
  then have "0 \<le> log 10 (real_of_int (max n 1))" by simp
  then show ?thesis by (simp add: tool_scaling_def)
qed

lemma log10_tool_count_le:
  assumes "n \<le> 10 ^ k"
  shows "log 10 (real_of_int (max n 1)) \<le> real k"
proof -
  have pos: "0 < real_of_int (max n 1)" by simp
  have "max n 1 \<le> 10 ^ k" using assms by simp
  then have "real_of_int (max n 1) \<le> real_of_int (10 ^ k)" by (rule of_int_le_iff [THEN iffD2])
  then have "real_of_int (max n 1) \<le> 10 powr real k" by (simp add: powr_realpow)
  then show ?thesis using pos by (simp add: log_le_iff)
qed

lemma log10_tool_count_less:
  assumes "n < 10 ^ k" "0 < k"
  shows "log 10 (real_of_int (max n 1)) < real k"
proof -
  have pos: "0 < real_of_int (max n 1)" by simp
  have "(1::int) < 10 ^ k" using assms(2) by simp
  then have "max n 1 < 10 ^ k" using assms by simp
  then have "real_of_int (max n 1) < real_of_int (10 ^ k)" by (rule of_int_less_iff [THEN iffD2])
  then have "real_of_int (max n 1) < 10 powr real k" by (simp add: powr_realpow)
  then show ?thesis using pos by (simp add: log_less_iff)
qed

lemma tool_scaling_lower:
  assumes "n \<le> 10 ^ 97"
  shows "0.03 \<le> tool_scaling n"
  using log10_tool_count_le [OF assms] by (simp add: tool_scaling_def)

lemma tool_scaling_pos:
  assumes "n < 10 ^ 100"
  shows "0 < tool_scaling n"
  using log10_tool_count_less [OF assms] by (simp add: tool_scaling_def)

lemma cycle_success_lower:
  assumes "0 \<le> c" "c \<le> 6"
  shows "(0.985::real) ^ 6 \<le> 0.985 powi c"
proof -
  have "(0.985::real) powi 6 \<le> 0.985 powi c"
    using assms by (intro power_int_decreasing) auto
  then show ?thesis by simp
qed

lemma cycle_success_le_one:
  assumes "0 \<le> c"
  shows "(0.985::real) powi c \<le> 1"
  using assms by (intro power_int_le_one) auto

lemma cycle_success_strict:
  assumes "c < c'"
  shows "(0.985::real) powi c' < 0.985 powi c"
  using assms by (intro power_int_strict_decreasing) auto

lemma dynamic_toolset_accuracy_value:
  "dynamic_toolset_accuracy n (Some c) = 0.97 * ((0.985::real) powi c * tool_scaling n) - 0.02"
  by (simp add: dynamic_toolset_accuracy_def accuracy_params mult.assoc)

lemma dynamic_accuracy_bounds:
  assumes n: "n \<le> 10 ^ 97" and c: "0 \<le> c" "c \<le> 6"
  shows "0 \<le> dynamic_toolset_accuracy n (Some c)" "dynamic_toolset_accuracy n (Some c) \<le> 1"
proof -
  let ?p = "(0.985::real) powi c"
  let ?t = "tool_scaling n"
  define x where "x = ?p * ?t"
  have p_lo: "(0.985::real) ^ 6 \<le> ?p" using c by (rule cycle_success_lower)
  have p_hi: "?p \<le> 1" using c(1) by (rule cycle_success_le_one)
  have t_lo: "0.03 \<le> ?t" using n by (rule tool_scaling_lower)
  have t_hi: "?t \<le> 1" by (rule tool_scaling_le_one)
  have t_pos: "0 \<le> ?t" using t_lo by simp
  have "(0.985::real) ^ 6 * 0.03 \<le> ?p * ?t"
    using p_lo t_lo by (intro mult_mono) auto
  then have "(0.985::real) ^ 6 * 0.03 \<le> x" by (simp only: x_def)
  moreover have "(0.0265::real) \<le> 0.985 ^ 6 * 0.03" by (simp add: power_def)
  ultimately have lo: "0.0265 \<le> x" by (rule order_trans [rotated])
  have "?p * ?t \<le> 1"
    using p_hi t_pos t_hi by (rule mult_le_one)
  then have hi: "x \<le> 1" by (simp only: x_def)
  have eq: "dynamic_toolset_accuracy n (Some c) = 0.97 * x - 0.02"
    by (simp only: dynamic_toolset_accuracy_value x_def)
  show "0 \<le> dynamic_toolset_accuracy n (Some c)"
    using lo by (simp add: eq)
  show "dynamic_toolset_accuracy n (Some c) \<le> 1"
    using hi by (simp add: eq)
qed

lemma full_context_accuracy_value: "full_context_accuracy n = 0.83"
  by (simp add: full_context_accuracy_def full_context_tokens_value accuracy_params)

lemma static_tools_accuracy_bounds:
  "0.78 \<le> static_tools_accuracy n" "static_tools_accuracy n \<le> 0.98"
  by (simp_all add: static_tools_accuracy_def accuracy_params Let_def min_def max_def)

lemma dynamic_toolset_accuracy_default:
  "dynamic_toolset_accuracy n None = dynamic_toolset_accuracy n (Some DYNAMIC_CYCLES_AVG)"
  by (simp add: dynamic_toolset_accuracy_def)

text \<open>
  C2. The three accuracy functions return values in the closed interval from 0 to 1:
  the full-context and static-tools accuracies for every tool count, and the
  dynamic-toolset accuracy for every tool count up to \<open>10 ^ 97\<close> (zero and negative counts
  included) and every cycle count from \<open>DYNAMIC_CYCLES_MIN\<close> to \<open>DYNAMIC_CYCLES_MAX\<close>, also
  when the cycle count is left out.
\<close>

theorem accuracy_in_unit_interval:
  "0 \<le> full_context_accuracy n \<and> full_context_accuracy n \<le> 1
   \<and> 0 \<le> static_tools_accuracy n \<and> static_tools_accuracy n \<le> 1
   \<and> (n \<le> 10 ^ 97 \<and> DYNAMIC_CYCLES_MIN \<le> c \<and> c \<le> DYNAMIC_CYCLES_MAX \<longrightarrow>
        0 \<le> dynamic_toolset_accuracy n (Some c) \<and> dynamic_toolset_accuracy n (Some c) \<le> 1)
   \<and> (n \<le> 10 ^ 97 \<longrightarrow>
        0 \<le> dynamic_toolset_accuracy n None \<and> dynamic_toolset_accuracy n None \<le> 1)"
proof -
  have fc: "0 \<le> full_context_accuracy n \<and> full_context_accuracy n \<le> 1"
    by (simp add: full_context_accuracy_value)
  have st: "0 \<le> static_tools_accuracy n \<and> static_tools_accuracy n \<le> 1"
    using static_tools_accuracy_bounds [of n] by simp
  have dy: "0 \<le> dynamic_toolset_accuracy n (Some c) \<and> dynamic_toolset_accuracy n (Some c) \<le> 1"
    if "n \<le> 10 ^ 97" "DYNAMIC_CYCLES_MIN \<le> c" "c \<le> DYNAMIC_CYCLES_MAX" for c
    using that dynamic_accuracy_bounds [of n c] by (simp add: cycle_params)
  have av: "dynamic_toolset_accuracy n None = dynamic_toolset_accuracy n (Some DYNAMIC_CYCLES_AVG)"
    by (simp add: dynamic_toolset_accuracy_def)
  have dn: "0 \<le> dynamic_toolset_accuracy n None \<and> dynamic_toolset_accuracy n None \<le> 1"
    if "n \<le> 10 ^ 97"
    unfolding av using that dy [of DYNAMIC_CYCLES_AVG] by (simp add: cycle_params)
  from fc st dy dn show ?thesis by blast
qed

theorem accuracy_in_unit_interval_witness:
  "(0::int) \<le> 10 ^ 97 \<and> DYNAMIC_CYCLES_MIN \<le> 6 \<and> 6 \<le> DYNAMIC_CYCLES_MAX
   \<and> 0 \<le> dynamic_toolset_accuracy 0 (Some 6) \<and> dynamic_toolset_accuracy 0 (Some 6) \<le> 1
   \<and> 0 \<le> dynamic_toolset_accuracy 0 None \<and> dynamic_toolset_accuracy 0 None \<le> 1"
proof -
  have h: "(0::int) \<le> 10 ^ 97" "DYNAMIC_CYCLES_MIN \<le> 6" "6 \<le> DYNAMIC_CYCLES_MAX"
    by (simp_all add: cycle_params)
  from accuracy_in_unit_interval [of 0 6] h
  show ?thesis by blast
qed

text \<open>The functions do not clamp: the bound on the tool count is needed, since at
  \<open>10 ^ 100\<close> tools the tool-scaling factor is 0 and the dynamic-toolset accuracy is
  negative.\<close>

lemma dynamic_accuracy_negative_beyond:
  "dynamic_toolset_accuracy (10 ^ 100) (Some c) < 0"
proof -
  have m: "real_of_int (max (10 ^ 100) 1) = 10 ^ 100" by simp
  have l: "log 10 ((10::real) ^ 100) = real 100" by (rule log_pow_cancel) simp_all
  have "tool_scaling (10 ^ 100) = 1 - 0.01 * real 100"
    by (simp only: tool_scaling_def m l)
  then have "tool_scaling (10 ^ 100) = 0" by simp
  then show ?thesis by (simp only: dynamic_toolset_accuracy_value) simp
qed

section \<open>Cycle counts\<close>

lemma dynamic_toolset_latency_default:
  "dynamic_toolset_latency n None = dynamic_toolset_latency n (Some DYNAMIC_CYCLES_AVG)"
  by (simp add: dynamic_toolset_latency_def)

lemma dynamic_accuracy_strict_antimono:
  assumes "n < 10 ^ 100" "c < c'"
  shows "dynamic_toolset_accuracy n (Some c') < dynamic_toolset_accuracy n (Some c)"
proof -
  have t: "0 < tool_scaling n" using assms(1) by (rule tool_scaling_pos)
  have "(0.985::real) powi c' < 0.985 powi c" using assms(2) by (rule cycle_success_strict)
  then have "(0.985::real) powi c' * tool_scaling n < 0.985 powi c * tool_scaling n"
    using t by (rule mult_strict_right_mono)
  then have "0.97 * ((0.985::real) powi c' * tool_scaling n)
             < 0.97 * (0.985 powi c * tool_scaling n)"
    by (rule mult_strict_left_mono) simp
  then have "0.97 * ((0.985::real) powi c' * tool_scaling n) - 0.02
             < 0.97 * (0.985 powi c * tool_scaling n) - 0.02"
    by (rule diff_strict_right_mono)
  then show ?thesis
    by (simp only: dynamic_toolset_accuracy_value)
qed

lemma cycle_impact_latencies:
  "latencies run_cycle_impact_simulation =
     [1302.75, 2405.5, 3508.25, 4611, 5713.75, 6816.5, 7919.25, 9022, 10124.75]"
  by (simp add: run_cycle_impact_simulation_def dynamic_toolset_latency_value upto.simps)

text \<open>
  C8, as stated: the cycle count used by the dynamic-toolset latency and accuracy is the
  given one clamped into \<open>DYNAMIC_CYCLES_MIN\<close> .. \<open>DYNAMIC_CYCLES_MAX\<close>. It fails: 9 cycles
  and 6 cycles give different latencies, 1 cycle and 2 cycles different accuracies.
\<close>

theorem cycles_clamp_counterexample:
  "dynamic_toolset_latency 50 (Some 9)
     \<noteq> dynamic_toolset_latency 50 (Some (max DYNAMIC_CYCLES_MIN (min DYNAMIC_CYCLES_MAX 9)))
   \<and> dynamic_toolset_accuracy 50 (Some 1)
     \<noteq> dynamic_toolset_accuracy 50 (Some (max DYNAMIC_CYCLES_MIN (min DYNAMIC_CYCLES_MAX 1)))"
proof -
  have "dynamic_toolset_accuracy 50 (Some 2) < dynamic_toolset_accuracy 50 (Some 1)"
    by (rule dynamic_accuracy_strict_antimono) simp_all
  then show ?thesis
    by (simp add: dynamic_toolset_latency_value cycle_params)
qed

text \<open>
  C8, amended. The cycle count passed to the dynamic-toolset latency and accuracy is used
  as passed, not clamped into \<open>DYNAMIC_CYCLES_MIN\<close> .. \<open>DYNAMIC_CYCLES_MAX\<close>: for the cycle
  counts 1 to 9 that the cycle-impact run passes, a count outside that range gives a
  latency and (at every tool count of an int64 array) an accuracy different from those at
  the nearest bound of the range. When no cycle count is given, the configured average
  \<open>DYNAMIC_CYCLES_AVG = 3\<close> is used.
\<close>

theorem cycles_used_as_given:
  "dynamic_toolset_latency n None = dynamic_toolset_latency n (Some DYNAMIC_CYCLES_AVG)
   \<and> dynamic_toolset_accuracy n None = dynamic_toolset_accuracy n (Some DYNAMIC_CYCLES_AVG)
   \<and> DYNAMIC_CYCLES_AVG = 3
   \<and> (1 \<le> c \<and> c \<le> 9 \<and> (c < DYNAMIC_CYCLES_MIN \<or> DYNAMIC_CYCLES_MAX < c) \<longrightarrow>
        dynamic_toolset_latency n (Some c)
          \<noteq> dynamic_toolset_latency n (Some (max DYNAMIC_CYCLES_MIN (min DYNAMIC_CYCLES_MAX c))))
   \<and> (1 \<le> c \<and> c \<le> 9 \<and> (c < DYNAMIC_CYCLES_MIN \<or> DYNAMIC_CYCLES_MAX < c)
        \<and> - (2 ^ 63) \<le> n \<and> n < 2 ^ 63 \<longrightarrow>
        dynamic_toolset_accuracy n (Some c)
          \<noteq> dynamic_toolset_accuracy n (Some (max DYNAMIC_CYCLES_MIN (min DYNAMIC_CYCLES_MAX c))))"
proof -
  let ?k = "max DYNAMIC_CYCLES_MIN (min DYNAMIC_CYCLES_MAX c)"
  have lat: "dynamic_toolset_latency n (Some c) \<noteq> dynamic_toolset_latency n (Some ?k)"
    if "c < DYNAMIC_CYCLES_MIN \<or> DYNAMIC_CYCLES_MAX < c"
    using that by (auto simp add: dynamic_toolset_latency_value cycle_params)
  have acc: "dynamic_toolset_accuracy n (Some c) \<noteq> dynamic_toolset_accuracy n (Some ?k)"
    if out: "c < DYNAMIC_CYCLES_MIN \<or> DYNAMIC_CYCLES_MAX < c" and n: "n < 2 ^ 63"
  proof -
    have n': "n < 10 ^ 100" using n by simp
    from out show ?thesis
    proof
      assume "c < DYNAMIC_CYCLES_MIN"
      then have "c < ?k" by (simp add: cycle_params)
      with n' have "dynamic_toolset_accuracy n (Some ?k) < dynamic_toolset_accuracy n (Some c)"
        by (rule dynamic_accuracy_strict_antimono)
      then show ?thesis by simp
    next
      assume "DYNAMIC_CYCLES_MAX < c"
      then have "?k < c" by (simp add: cycle_params)
      with n' have "dynamic_toolset_accuracy n (Some c) < dynamic_toolset_accuracy n (Some ?k)"
        by (rule dynamic_accuracy_strict_antimono)
      then show ?thesis by simp
    qed
  qed
  have avg: "DYNAMIC_CYCLES_AVG = 3" by (simp add: DYNAMIC_CYCLES_AVG_def)
  from lat acc avg dynamic_toolset_latency_default [of n] dynamic_toolset_accuracy_default [of n]
  show ?thesis by blast
qed

theorem cycles_used_as_given_witness:
  "(1::int) \<le> 7 \<and> (7::int) \<le> 9 \<and> DYNAMIC_CYCLES_MAX < 7
   \<and> - (2 ^ 63) \<le> (50::int) \<and> (50::int) < 2 ^ 63
   \<and> dynamic_toolset_latency 50 (Some 7) \<noteq> dynamic_toolset_latency 50 (Some 6)
   \<and> dynamic_toolset_accuracy 50 (Some 7) \<noteq> dynamic_toolset_accuracy 50 (Some 6)"
proof -
  have h: "(1::int) \<le> 7" "(7::int) \<le> 9" "DYNAMIC_CYCLES_MAX < 7"
    "- (2 ^ 63) \<le> (50::int)" "(50::int) < 2 ^ 63"
    by (simp_all add: cycle_params)
  have k: "max DYNAMIC_CYCLES_MIN (min DYNAMIC_CYCLES_MAX 7) = 6"
    by (simp add: cycle_params)
  from cycles_used_as_given [of 50 7] h
  have "dynamic_toolset_latency 50 (Some 7)
          \<noteq> dynamic_toolset_latency 50 (Some (max DYNAMIC_CYCLES_MIN (min DYNAMIC_CYCLES_MAX 7)))
        \<and> dynamic_toolset_accuracy 50 (Some 7)
          \<noteq> dynamic_toolset_accuracy 50 (Some (max DYNAMIC_CYCLES_MIN (min DYNAMIC_CYCLES_MAX 7)))"
    by blast
  then show ?thesis using h by (simp only: k) simp
qed

section \<open>The sweep entry point\<close>

text \<open>
  C3, as stated: an empty tool-count sequence or one with a negative count is rejected
  with a validation error. It fails: \<open>run_simulation\<close> returns a result for the empty
  sequence (all series empty) and for the sequence holding -5.
\<close>

theorem run_simulation_empty_not_rejected:
  "run_simulation (Some []) =
     Inr \<lparr> res_tool_counts = [],
           res_full_context_tokens = [], res_full_context_latency = [],
           res_static_tools_tokens = [], res_static_tools_latency = [],
           res_dynamic_toolset_tokens = [],
           res_dynamic_toolset_latency_best = [], res_dynamic_toolset_latency_avg = [],
           res_dynamic_toolset_latency_worst = [] \<rparr>
   \<and> run_simulation (Some [-5]) =
     Inr \<lparr> res_tool_counts = [-5],
           res_full_context_tokens = [36500], res_full_context_latency = [2625],
           res_static_tools_tokens = [1800], res_static_tools_latency = [1490],
           res_dynamic_toolset_tokens = [2055],
           res_dynamic_toolset_latency_best = [2405.5], res_dynamic_toolset_latency_avg = [3508.25],
           res_dynamic_toolset_latency_worst = [6816.5] \<rparr>"
  using static_tools_tokens_small [of "- 5"] static_tools_latency_small [of "- 5"]
  by (simp add: run_simulation_def full_context_tokens_value full_context_latency_def
      dynamic_toolset_tokens_value dynamic_toolset_latency_range_def
      dynamic_toolset_latency_value latency_params cycle_params)

text \<open>
  C3, amended. \<open>run_simulation\<close> validates nothing: for every argument it returns a
  result, whose tool counts are the given ones (the default sweep when none is given)
  and whose series each have one entry per tool count.
\<close>

theorem run_simulation_total:
  "\<exists>r. run_simulation arg = Inr r
       \<and> res_tool_counts r = (case arg of None \<Rightarrow> [5, 10, 20, 30, 40, 50, 75, 100, 150, 200]
                                          | Some tcs \<Rightarrow> tcs)
       \<and> length (res_full_context_tokens r) = length (res_tool_counts r)
       \<and> length (res_full_context_latency r) = length (res_tool_counts r)
       \<and> length (res_static_tools_tokens r) = length (res_tool_counts r)
       \<and> length (res_static_tools_latency r) = length (res_tool_counts r)
       \<and> length (res_dynamic_toolset_tokens r) = length (res_tool_counts r)
       \<and> length (res_dynamic_toolset_latency_best r) = length (res_tool_counts r)
       \<and> length (res_dynamic_toolset_latency_avg r) = length (res_tool_counts r)
       \<and> length (res_dynamic_toolset_latency_worst r) = length (res_tool_counts r)"
  by (simp add: run_simulation_def Let_def)

section \<open>Crossover\<close>

lemma favorable_idx_values:
  "map (nth xs) (filter (\<lambda>i. Q (xs ! i)) [0..<length xs]) = filter Q xs"
proof -
  have "filter Q xs = filter Q (map (nth xs) [0..<length xs])"
    by (simp only: map_nth)
  also have "\<dots> = map (nth xs) (filter (Q \<circ> nth xs) [0..<length xs])"
    by (simp only: filter_map)
  finally show ?thesis by (simp add: o_def)
qed

lemma crossover_filter:
  "crossover xs =
     (case filter (\<lambda>n. token_savings_pct n > latency_overhead_pct n) xs of
        [] \<Rightarrow> None | y # ys \<Rightarrow> Some y)"
proof -
  let ?Q = "\<lambda>n. token_savings_pct n > latency_overhead_pct n"
  let ?idx = "filter (\<lambda>i. ?Q (xs ! i)) [0..<length xs]"
  have m: "map (nth xs) ?idx = filter ?Q xs" by (rule favorable_idx_values)
  show ?thesis
  proof (cases ?idx)
    case Nil
    then have "filter ?Q xs = []" using m by simp
    then show ?thesis using Nil by (simp add: crossover_def)
  next
    case (Cons i js)
    then have "filter ?Q xs = xs ! i # map (nth xs) js" using m by simp
    then show ?thesis using Cons by (simp add: crossover_def)
  qed
qed

lemma first_of_sorted_filter:
  assumes "sorted xs" "filter Q xs = y # ys"
  shows "y \<in> set xs \<and> Q y \<and> (\<forall>m\<in>set xs. Q m \<longrightarrow> y \<le> m)"
proof -
  have "sorted (filter Q xs)" using assms(1) by (rule sorted_wrt_filter)
  then have le: "\<forall>z\<in>set ys. y \<le> z" using assms(2) by simp
  have mem: "set (y # ys) = {x \<in> set xs. Q x}" using assms(2) [symmetric] by simp
  then have "y \<in> {x \<in> set xs. Q x}" by auto
  moreover have "\<forall>m\<in>set xs. Q m \<longrightarrow> y \<le> m"
  proof (intro ballI impI)
    fix m assume "m \<in> set xs" "Q m"
    then have "m \<in> set (y # ys)" using mem by simp
    then show "y \<le> m" using le by auto
  qed
  ultimately show ?thesis by simp
qed

lemma less_Fin: "Fin x < Fin y \<longleftrightarrow> x < y"
  by (simp add: less_npfloat_def)

lemma less_iff_minus_pos:
  fixes a b :: npfloat
  shows "b < a \<longleftrightarrow> 0 < a - b"
  by (cases a; cases b) (simp_all add: less_npfloat_def minus_npfloat_def zero_npfloat_def)

lemma token_savings_pct_value:
  assumes "0 \<le> n" "n \<le> 10 ^ 16"
  shows "token_savings_pct n
           = Fin ((245 + 100 * real_of_int n) / (2300 + 100 * real_of_int n) * 100)"
proof -
  have st: "static_tools_tokens n = 2300 + 100 * real_of_int n"
    using assms by (intro static_tools_tokens_small) simp_all
  have nz: "2300 + 100 * real_of_int n \<noteq> 0" using assms(1) by simp
  show ?thesis
    using nz by (simp add: token_savings_pct_def st dynamic_toolset_tokens_value
        np_divide_def times_npfloat_def)
qed

lemma latency_overhead_pct_value:
  assumes "0 \<le> n" "n \<le> 10 ^ 16"
  shows "latency_overhead_pct n
           = Fin ((1993.25 - 5 * real_of_int n) / (1515 + 5 * real_of_int n) * 100)"
proof -
  have sl: "static_tools_latency n = 1515 + 5 * real_of_int n"
    using assms by (intro static_tools_latency_small) simp_all
  have nz: "1515 + 5 * real_of_int n \<noteq> 0" using assms(1) by simp
  have dl: "dynamic_toolset_latency n None = 3508.25"
    by (simp add: dynamic_toolset_latency_default dynamic_toolset_latency_value cycle_params)
  have "dynamic_toolset_latency n None - static_tools_latency n = 1993.25 - 5 * real_of_int n"
    by (simp add: dl sl)
  then show ?thesis
    using nz by (simp only: latency_overhead_pct_def sl np_divide_def times_npfloat_def) simp
qed

lemma favorable_poly:
  assumes "0 \<le> n" "n \<le> 10 ^ 16"
  shows "latency_overhead_pct n < token_savings_pct n
         \<longleftrightarrow> 4213300 + 35100 * real_of_int n < 1000 * (real_of_int n * real_of_int n)"
proof -
  define x where "x = real_of_int n"
  have x: "0 \<le> x" using assms by (simp add: x_def)
  then have d1: "0 < 2300 + 100 * x" and d2: "0 < 1515 + 5 * x" by simp_all
  have "latency_overhead_pct n < token_savings_pct n
        \<longleftrightarrow> (1993.25 - 5 * x) / (1515 + 5 * x) * 100 < (245 + 100 * x) / (2300 + 100 * x) * 100"
    by (simp only: token_savings_pct_value [OF assms] latency_overhead_pct_value [OF assms]
        less_Fin x_def)
  also have "\<dots> \<longleftrightarrow> (1993.25 - 5 * x) / (1515 + 5 * x) < (245 + 100 * x) / (2300 + 100 * x)"
    by (rule mult_less_cancel_right_pos) simp
  also have "\<dots> \<longleftrightarrow> (1993.25 - 5 * x) * (2300 + 100 * x) < (245 + 100 * x) * (1515 + 5 * x)"
    using d1 d2 by (simp add: pos_divide_less_eq pos_less_divide_eq)
  also have "\<dots> \<longleftrightarrow> 4213300 + 35100 * x < 1000 * (x * x)"
    by (simp add: algebra_simps)
  finally show ?thesis by (simp only: x_def)
qed

lemma favorable_iff:
  assumes "0 \<le> n" "n \<le> 10 ^ 16"
  shows "latency_overhead_pct n < token_savings_pct n \<longleftrightarrow> 85 \<le> n"
proof (cases "85 \<le> n")
  case True
  then have "85 * n \<le> n * n" by (intro mult_right_mono) auto
  then have "4213300 + 35100 * n < 1000 * (n * n)" using True by linarith
  then have "real_of_int (4213300 + 35100 * n) < real_of_int (1000 * (n * n))"
    by (simp only: of_int_less_iff)
  then show ?thesis using True by (simp add: favorable_poly [OF assms])
next
  case False
  then have "n \<le> 84" by simp
  then have "n * n \<le> 84 * n" using assms by (intro mult_right_mono) auto
  then have "1000 * (n * n) \<le> 4213300 + 35100 * n" using \<open>n \<le> 84\<close> assms by linarith
  then have "real_of_int (1000 * (n * n)) \<le> real_of_int (4213300 + 35100 * n)"
    by (simp only: of_int_le_iff)
  then show ?thesis using False by (simp add: favorable_poly [OF assms] not_less)
qed

text \<open>Where the static latency is 0 the overhead is \<open>+\<infinity>\<close> and the tool count is not
  favourable, as in numpy; with exact division by zero giving 0 it would be.\<close>

lemma zero_latency_not_favorable:
  "static_tools_latency (- 303) = 0
   \<and> latency_overhead_pct (- 303) = PInf
   \<and> \<not> latency_overhead_pct (- 303) < token_savings_pct (- 303)
   \<and> crossover [- 303] = None"
proof -
  have sl: "static_tools_latency (- 303) = 0"
    using static_tools_latency_small [of "- 303"] by simp
  have lo: "latency_overhead_pct (- 303) = PInf"
    by (simp add: latency_overhead_pct_def sl np_divide_def times_npfloat_def
        dynamic_toolset_latency_default dynamic_toolset_latency_value cycle_params)
  have st: "static_tools_tokens (- 303) = - 28000"
    using static_tools_tokens_small [of "- 303"] by simp
  have ts: "token_savings_pct (- 303) = Fin (30055 / 28000 * 100)"
    by (simp add: token_savings_pct_def st dynamic_toolset_tokens_value np_divide_def
        times_npfloat_def)
  have nf: "\<not> latency_overhead_pct (- 303) < token_savings_pct (- 303)"
    by (simp add: lo ts less_npfloat_def)
  then have "crossover [- 303] = None"
    by (simp add: crossover_def)
  with sl lo nf show ?thesis by blast
qed

text \<open>The same holds at the non-negative tool count where the wrapped token count makes
  the static latency 0.\<close>

lemma wrapped_zero_latency_not_favorable:
  "static_tools_tokens 4611686018427387601 = - 28000
   \<and> static_tools_latency 4611686018427387601 = 0
   \<and> latency_overhead_pct 4611686018427387601 = PInf
   \<and> crossover [4611686018427387601] = None"
proof -
  have st: "static_tools_tokens 4611686018427387601 = - 28000"
    by (simp add: static_tools_tokens_def token_params int64_wrap_def)
  have sl: "static_tools_latency 4611686018427387601 = 0"
    by (simp add: static_tools_latency_def st latency_params)
  have lo: "latency_overhead_pct 4611686018427387601 = PInf"
    by (simp add: latency_overhead_pct_def sl np_divide_def times_npfloat_def
        dynamic_toolset_latency_default dynamic_toolset_latency_value cycle_params)
  have ts: "token_savings_pct 4611686018427387601 = Fin (30055 / 28000 * 100)"
    by (simp add: token_savings_pct_def st dynamic_toolset_tokens_value np_divide_def
        times_npfloat_def)
  have "\<not> latency_overhead_pct 4611686018427387601 < token_savings_pct 4611686018427387601"
    by (simp add: lo ts less_npfloat_def)
  then have "crossover [4611686018427387601] = None"
    by (simp add: crossover_def)
  with st sl lo show ?thesis by blast
qed

lemma crossover_start_given: "crossover_start (Some tcs) = crossover tcs"
  by (simp add: crossover_start_def)

lemma crossover_none_example: "crossover [5, 10, 20, 50, 84] = None"
  by (simp add: crossover_filter favorable_iff)

text \<open>
  C1. For an ascending sweep of non-negative tool counts, the crossover is the smallest
  tool count of the sweep whose token savings percentage exceeds its latency overhead
  percentage, that is, whose net benefit is positive; and it is \<open>None\<close> exactly when no
  tool count of the sweep has that property. A crossover that is found is always a tool
  count of the sweep.
\<close>

theorem crossover_smallest_favorable:
  assumes "sorted tcs" and "\<forall>m\<in>set tcs. 0 \<le> m"
  shows "(crossover tcs = Some n \<longleftrightarrow>
            n \<in> set tcs \<and> token_savings_pct n > latency_overhead_pct n
            \<and> (\<forall>m\<in>set tcs. token_savings_pct m > latency_overhead_pct m \<longrightarrow> n \<le> m))
         \<and> (crossover tcs = None \<longleftrightarrow>
              (\<forall>m\<in>set tcs. \<not> token_savings_pct m > latency_overhead_pct m))
         \<and> (token_savings_pct n > latency_overhead_pct n \<longleftrightarrow> net_benefit n > 0)"
proof -
  let ?Q = "\<lambda>n. token_savings_pct n > latency_overhead_pct n"
  have cf: "crossover tcs = (case filter ?Q tcs of [] \<Rightarrow> None | y # ys \<Rightarrow> Some y)"
    by (rule crossover_filter)
  have "crossover tcs = None \<longleftrightarrow> filter ?Q tcs = []"
    by (simp add: cf split: list.split)
  also have "\<dots> \<longleftrightarrow> (\<forall>m\<in>set tcs. \<not> ?Q m)"
    by (rule filter_empty_conv)
  finally have none: "crossover tcs = None \<longleftrightarrow> (\<forall>m\<in>set tcs. \<not> ?Q m)" .
  have some: "crossover tcs = Some n \<longleftrightarrow>
                n \<in> set tcs \<and> ?Q n \<and> (\<forall>m\<in>set tcs. ?Q m \<longrightarrow> n \<le> m)"
  proof
    assume "crossover tcs = Some n"
    then obtain ys where "filter ?Q tcs = n # ys"
      by (auto simp: cf split: list.splits)
    with assms(1) show "n \<in> set tcs \<and> ?Q n \<and> (\<forall>m\<in>set tcs. ?Q m \<longrightarrow> n \<le> m)"
      by (rule first_of_sorted_filter)
  next
    assume r: "n \<in> set tcs \<and> ?Q n \<and> (\<forall>m\<in>set tcs. ?Q m \<longrightarrow> n \<le> m)"
    then have "n \<in> set (filter ?Q tcs)" by simp
    then obtain y ys where f: "filter ?Q tcs = y # ys"
      by (cases "filter ?Q tcs") auto
    with assms(1) have y: "y \<in> set tcs \<and> ?Q y \<and> (\<forall>m\<in>set tcs. ?Q m \<longrightarrow> y \<le> m)"
      by (rule first_of_sorted_filter)
    from r y have "y \<le> n" "n \<le> y" by auto
    then have "y = n" by simp
    then show "crossover tcs = Some n" using f by (simp add: cf)
  qed
  have nb: "?Q n \<longleftrightarrow> net_benefit n > 0"
    unfolding net_benefit_def by (rule less_iff_minus_pos)
  from some none nb show ?thesis by blast
qed

text \<open>On the range \<^verbatim>\<open>np.arange(5, 300, 1)\<close> of \<^verbatim>\<open>print_summary_table\<close> the crossover is at
  85 tools.\<close>

theorem crossover_smallest_favorable_witness:
  "sorted [5..299] \<and> list_all (\<lambda>m. 0 \<le> m) [5..299]
   \<and> crossover [5..299] = Some 85 \<and> summary_crossover = Some 85"
proof -
  have s: "sorted [5..299]" by (simp only: sorted_upto)
  have p: "\<forall>m\<in>set [5..299]. (0::int) \<le> m"
    by (simp only: set_upto atLeastAtMost_iff) auto
  have m: "(85::int) \<in> set [5..299]"
    by (simp only: set_upto atLeastAtMost_iff) simp
  have f: "token_savings_pct 85 > latency_overhead_pct 85"
    by (simp add: favorable_iff)
  have l: "\<forall>m\<in>set [5..299]. token_savings_pct m > latency_overhead_pct m \<longrightarrow> 85 \<le> m"
  proof (intro ballI impI)
    fix m :: int
    assume "m \<in> set [5..299]" and fm: "token_savings_pct m > latency_overhead_pct m"
    then have "0 \<le> m" "m \<le> 10 ^ 16" by (simp_all only: set_upto atLeastAtMost_iff) simp_all
    then show "85 \<le> m" using fm by (simp add: favorable_iff)
  qed
  from crossover_smallest_favorable [OF s p, of 85] m f l
  have c: "crossover [5..299] = Some 85" by blast
  then have "summary_crossover = Some 85" by (simp only: summary_crossover_def)
  moreover from p have "list_all (\<lambda>m. 0 \<le> m) [5..299]" by (simp only: list_all_iff)
  ultimately show ?thesis using s c by blast
qed

end
